theory Spec2Isabelle
  imports Main "HOL-Library.Word"
begin

unbundle bit_operations_syntax

section \<open>Errors (github.com/juju/errors as the code uses it)\<close>

text \<open>
  The code builds its errors with the typed constructors of juju/errors:
  \<^verbatim>\<open>NotFoundf\<close>, \<^verbatim>\<open>NotValidf\<close>, \<^verbatim>\<open>NotProvisionedf\<close>, \<^verbatim>\<open>NotAssignedf\<close>,
  \<^verbatim>\<open>NotImplementedf\<close> (each appends its suffix to the formatted message) and wraps
  them with \<^verbatim>\<open>Annotate\<close>. An error of any other origin (the provider's network
  call, the random source) is \<open>Plain\<close>. A Go \<^verbatim>\<open>error\<close> that may be nil is an
  \<open>error option\<close>.
\<close>

datatype errkind = NotFound | NotValid | NotProvisioned | NotAssigned | NotImplemented | Plain

datatype error = Err errkind string | Annotate error string

fun ErrorText :: "error \<Rightarrow> string" where
  "ErrorText (Err k m) = m"
| "ErrorText (Annotate e m) = (if m = [] then ErrorText e else m @ '': '' @ ErrorText e)"

text \<open>The kind of an error is the kind of its cause: annotations keep it.\<close>

fun kind :: "error \<Rightarrow> errkind" where
  "kind (Err k m) = k"
| "kind (Annotate e m) = kind e"

definition NotFoundf :: "string \<Rightarrow> error" where
  "NotFoundf s = Err NotFound (s @ '' not found'')"

definition NotValidf :: "string \<Rightarrow> error" where
  "NotValidf s = Err NotValid (s @ '' not valid'')"

definition NotProvisionedf :: "string \<Rightarrow> error" where
  "NotProvisionedf s = Err NotProvisioned (s @ '' not provisioned'')"

definition NotAssignedf :: "string \<Rightarrow> error" where
  "NotAssignedf s = Err NotAssigned (s @ '' not assigned'')"

definition NotImplementedf :: "string \<Rightarrow> error" where
  "NotImplementedf s = Err NotImplemented (s @ '' not implemented'')"

text \<open>
  A Go panic (a read through a nil pointer, closing a channel that is closed) is not an
  error value: a function that can panic has an outcome.
\<close>

datatype 'a outcome = Returns 'a | Panics

section \<open>Identifiers (github.com/google/uuid as the code uses it)\<close>

text \<open>
  A \<^verbatim>\<open>uuid.UUID\<close> is an array of 16 bytes: a 128-bit word, byte 0 the most
  significant. \<^verbatim>\<open>uuid.Nil\<close> is all zero. \<^verbatim>\<open>Version()\<close> is \<^verbatim>\<open>Version(uuid[6] >> 4)\<close>,
  and \<^verbatim>\<open>Version.String()\<close> prints \<^verbatim>\<open>VERSION_%d\<close>, or \<^verbatim>\<open>BAD_VERSION_%d\<close> above 15.
  \<^verbatim>\<open>UUID.String()\<close> is the usual 8-4-4-4-12 lower-case hexadecimal form.
\<close>

type_synonym UUID = "128 word"

definition Nil_UUID :: UUID where
  "Nil_UUID = 0"

definition byte_of :: "UUID \<Rightarrow> nat \<Rightarrow> 8 word" where
  "byte_of u i = ucast (drop_bit (8 * (15 - i)) u)"

definition UUID_Version :: "UUID \<Rightarrow> 8 word" where
  "UUID_Version u = drop_bit 4 (byte_of u 6)"

function decimal :: "nat \<Rightarrow> string" where
  "decimal n = (if n < 10 then [''0123456789'' ! n]
                else decimal (n div 10) @ [''0123456789'' ! (n mod 10)])"
  by pat_completeness auto
termination
  by (relation "measure id") auto

declare decimal.simps [simp del]

definition Version_String :: "8 word \<Rightarrow> string" where
  "Version_String v =
     (if unat v > 15 then ''BAD_VERSION_'' @ decimal (unat v)
      else ''VERSION_'' @ decimal (unat v))"

definition hex_byte :: "8 word \<Rightarrow> string" where
  "hex_byte b = [''0123456789abcdef'' ! unat (drop_bit 4 b),
                 ''0123456789abcdef'' ! unat (b AND 15)]"

definition hex_bytes :: "UUID \<Rightarrow> nat list \<Rightarrow> string" where
  "hex_bytes u is = concat (map (\<lambda>i. hex_byte (byte_of u i)) is)"

definition UUID_String :: "UUID \<Rightarrow> string" where
  "UUID_String u =
     hex_bytes u [0, 1, 2, 3] @ ''-'' @ hex_bytes u [4, 5] @ ''-'' @ hex_bytes u [6, 7] @ ''-''
       @ hex_bytes u [8, 9] @ ''-'' @ hex_bytes u [10, 11, 12, 13, 14, 15]"

section \<open>The back-end manager, first revision (byte capsules with a content type)\<close>

text \<open>
  \<^verbatim>\<open>provider.ContentType\<close> is a Go string type with the constants
  \<^verbatim>\<open>provider.Text\<close>, \<^verbatim>\<open>provider.Image\<close>, \<^verbatim>\<open>provider.Audio\<close> and
  \<^verbatim>\<open>provider.ErrorType\<close>. A \<^verbatim>\<open>[]byte\<close> is a \<open>string\<close> here (a list of bytes), so
  \<^verbatim>\<open>string(capsule.Content)\<close> is the identity.
\<close>

type_synonym ContentType = string

definition provider_Text :: ContentType where
  "provider_Text = ''Text''"

definition provider_Image :: ContentType where
  "provider_Image = ''Image''"

definition provider_Audio :: ContentType where
  "provider_Audio = ''Audio''"

definition provider_ErrorType :: ContentType where
  "provider_ErrorType = ''Error''"

record CapsuleIn =
  RespondTo :: UUID
  ProviderLabel :: string
  ContentType :: ContentType
  Content :: string
  User :: string

text \<open>\<^verbatim>\<open>capsuleIsValid\<close> (backend.go, first revision): the checks in the source's order.\<close>

definition capsuleIsValid :: "CapsuleIn \<Rightarrow> error option" where
  "capsuleIsValid capsule =
     (if RespondTo capsule = Nil_UUID \<and> Version_String (UUID_Version (RespondTo capsule)) = ''VERSION_4''
      then Some (NotValidf (''uuid '' @ UUID_String (RespondTo capsule)))
      else if length (CapsuleIn.Content capsule) = 0
      then Some (NotProvisionedf (''content (capsule '' @ UUID_String (RespondTo capsule) @ '')''))
      else if length (ContentType capsule) = 0
      then Some (NotAssignedf (''input type '' @ ContentType capsule @ '' (capsule ''
                   @ UUID_String (RespondTo capsule) @ '')''))
      else if length (ProviderLabel capsule) = 0
      then Some (NotAssignedf (''provider (capsule '' @ UUID_String (RespondTo capsule) @ '')''))
      else if length (CapsuleIn.User capsule) = 0
      then Some (NotAssignedf (''user (capsule '' @ UUID_String (RespondTo capsule) @ '')''))
      else None)"

record CapsuleOut =
  RespondTo :: UUID
  ProviderLabel :: string
  ContentType :: ContentType
  Content :: string
  User :: string
  Error :: "error option"

text \<open>
  The back-end provider contract (backend/provider): \<^verbatim>\<open>Message(text)\<close> answers with a
  structured response or an error. The response is what the provider's service says, so
  the provider is a function of the text; each call is recorded in the manager's
  \<open>provider_calls\<close>. A \<^verbatim>\<open>float32\<close> confidence is only copied: it is its 32 bits.
\<close>

record Output =
  ResponseType :: string
  Text :: string

record Intent =
  Intent :: string
  Confidence :: "32 word"

record Response =
  StatusCode :: int
  Outputs :: "Output list"
  Intents :: "Intent list"

record backend_Provider =
  Message :: "string \<Rightarrow> error + Response"
  GetLabel :: string

text \<open>
  The first revision's manager. Its channels are the lists of what was sent on them;
  \<open>logged\<close> holds the errors written to the log at error level. The YAML codec is
  outside the repository: \<^verbatim>\<open>yaml.Unmarshal\<close> and \<^verbatim>\<open>yaml.Marshal\<close> are parameters.
\<close>

record Backend_v1 =
  activatedProvider :: backend_Provider
  provider_calls :: "string list"
  backendErrorChan :: "string list"
  logged :: "error list"
  stopped :: bool

record yaml =
  Unmarshal :: "string \<Rightarrow> error + CapsuleIn"
  Marshal :: "CapsuleOut \<Rightarrow> error + string"

text \<open>\<^verbatim>\<open>Backend.unmarshalCapsule\<close> (first revision).\<close>

definition unmarshalCapsule :: "yaml \<Rightarrow> string \<Rightarrow> error + CapsuleIn" where
  "unmarshalCapsule y data =
     (case Unmarshal y data of
        Inl err \<Rightarrow> Inl (Annotate err ''unmarshaling capsule'')
      | Inr capsule \<Rightarrow>
          (case capsuleIsValid capsule of
             Some err \<Rightarrow> Inl (Annotate err ''unmarshaling capsule'')
           | None \<Rightarrow> Inr capsule))"

text \<open>
  \<^verbatim>\<open>Backend.message\<close> (first revision): the switch on the content type. Only the Text
  branch calls the provider.
\<close>

definition backend_message :: "Backend_v1 \<Rightarrow> CapsuleIn \<Rightarrow> (error + Response) \<times> Backend_v1" where
  "backend_message b capsule =
     (if CapsuleIn.ContentType capsule = provider_Text
      then (backend_Provider.Message (activatedProvider b) (CapsuleIn.Content capsule),
            b\<lparr>provider_calls := provider_calls b @ [CapsuleIn.Content capsule]\<rparr>)
      else if CapsuleIn.ContentType capsule = provider_Image
      then (Inl (NotImplementedf (CapsuleIn.ContentType capsule @ '' message handling'')), b)
      else if CapsuleIn.ContentType capsule = provider_Audio
      then (Inl (NotImplementedf (CapsuleIn.ContentType capsule @ '' message handling'')), b)
      else (Inl (NotFoundf (''input type '' @ CapsuleIn.ContentType capsule)), b))"

text \<open>\<^verbatim>\<open>Backend.errorHandler\<close> (first revision).\<close>

definition errorHandler_v1 :: "yaml \<Rightarrow> Backend_v1 \<Rightarrow> CapsuleIn \<Rightarrow> error \<Rightarrow> error option \<times> Backend_v1" where
  "errorHandler_v1 y b original err =
     (let capsuleOut = \<lparr>CapsuleOut.RespondTo = CapsuleIn.RespondTo original,
                        CapsuleOut.ProviderLabel = CapsuleIn.ProviderLabel original,
                        CapsuleOut.ContentType = provider_ErrorType,
                        CapsuleOut.Content = CapsuleIn.Content original,
                        CapsuleOut.User = CapsuleIn.User original,
                        CapsuleOut.Error = Some err\<rparr>
      in case Marshal y capsuleOut of
           Inl err' \<Rightarrow> (Some (Annotate err' ''handling error''), b)
         | Inr data \<Rightarrow> (None, b\<lparr>backendErrorChan := backendErrorChan b @ [data]\<rparr>))"

text \<open>
  One iteration of the first revision's listening loop, for a value \<open>data\<close> received
  on \<^verbatim>\<open>capsuleInChan\<close>: unmarshal, then \<^verbatim>\<open>b.activatedProvider.Message\<close> on the
  content, then the error handler when the provider failed.
\<close>

definition Start_v1_receive :: "yaml \<Rightarrow> Backend_v1 \<Rightarrow> string \<Rightarrow> Backend_v1" where
  "Start_v1_receive y b data =
     (case unmarshalCapsule y data of
        Inl err \<Rightarrow> b\<lparr>logged := logged b @ [err]\<rparr>
      | Inr capsule \<Rightarrow>
          (let b' = b\<lparr>provider_calls := provider_calls b @ [CapsuleIn.Content capsule]\<rparr>
           in case backend_Provider.Message (activatedProvider b) (CapsuleIn.Content capsule) of
                Inl err \<Rightarrow>
                  (case errorHandler_v1 y b' capsule err of
                     (Some err', b'') \<Rightarrow> b''\<lparr>logged := logged b'' @ [err']\<rparr>
                   | (None, b'') \<Rightarrow> b'')
              | Inr response \<Rightarrow> b'))"

text \<open>
  The loop itself: \<open>Some data\<close> is a value received, \<open>None\<close> the closed channel,
  on which the provider is stopped and the loop left. With nothing more to receive the
  loop is waiting, and the state is the one reached so far.
\<close>

fun Start_v1 :: "yaml \<Rightarrow> Backend_v1 \<Rightarrow> string option list \<Rightarrow> Backend_v1" where
  "Start_v1 y b [] = b"
| "Start_v1 y b (None # rest) = b\<lparr>stopped := True\<rparr>"
| "Start_v1 y b (Some data # rest) = Start_v1 y (Start_v1_receive y b data) rest"

section \<open>The capsule and the back-end manager, second revision\<close>

record Capsule =
  OriginalMessage :: UUID
  FrontendProvider :: string
  Content :: string
  User :: string
  Responses :: "string list"
  Error :: "error option"

text \<open>
  The second revision's manager: \<open>capsuleChan\<close> lists the capsules it has sent on the
  shared channel (its field \<^verbatim>\<open>capsule\<close>).
\<close>

record Backend =
  activatedProvider :: backend_Provider
  provider_calls :: "string list"
  capsuleChan :: "Capsule list"
  logged :: "error list"
  stopped :: bool

text \<open>
  \<^verbatim>\<open>Backend.errorHandler\<close> (second revision): the error is stored in the capsule, the
  capsule is sent, and the result is nil.
\<close>

definition errorHandler :: "Backend \<Rightarrow> Capsule \<Rightarrow> error \<Rightarrow> error option \<times> Backend" where
  "errorHandler b original err =
     (None, b\<lparr>capsuleChan := capsuleChan b @ [original\<lparr>Capsule.Error := Some err\<rparr>]\<rparr>)"

text \<open>
  One iteration of the second revision's listening loop, for a capsule received on the
  shared channel. The range loop over the outputs appends each text to the capsule's
  responses.
\<close>

definition backend_receive :: "Backend \<Rightarrow> Capsule \<Rightarrow> Backend" where
  "backend_receive b c =
     (let b' = b\<lparr>Backend.provider_calls := Backend.provider_calls b @ [Capsule.Content c]\<rparr>
      in case backend_Provider.Message (Backend.activatedProvider b) (Capsule.Content c) of
           Inl err \<Rightarrow>
             (case errorHandler b' c err of
                (Some err', b'') \<Rightarrow> b''\<lparr>Backend.logged := Backend.logged b'' @ [err']\<rparr>
              | (None, b'') \<Rightarrow> b'')
         | Inr response \<Rightarrow>
             b'\<lparr>capsuleChan := capsuleChan b' @
                  [foldl (\<lambda>c output. c\<lparr>Responses := Responses c @ [Output.Text output]\<rparr>)
                     c (Outputs response)]\<rparr>)"

fun backend_Start :: "Backend \<Rightarrow> Capsule option list \<Rightarrow> Backend" where
  "backend_Start b [] = b"
| "backend_Start b (None # rest) = b\<lparr>Backend.stopped := True\<rparr>"
| "backend_Start b (Some c # rest) = backend_Start (backend_receive b c) rest"

section \<open>The front-end manager (second revision)\<close>

text \<open>
  \<^verbatim>\<open>provider.User\<close>, \<^verbatim>\<open>provider.CapsuleProvider\<close>, \<^verbatim>\<open>provider.Config\<close> and
  \<^verbatim>\<open>frontend.ProviderConfig\<close>. The authorized users are the users the pointers of the
  slice point to. The \<^verbatim>\<open>UserInput\<close> channel of a \<^verbatim>\<open>Config\<close> is the manager's one
  channel, and is left out of the record.
\<close>

record User =
  ID :: int
  Name :: string

record CapsuleProvider =
  OriginalMessage :: UUID
  ProviderLabel :: string
  Content :: string
  User :: string

record Config =
  Token :: string
  AuthorizedUsers :: "User list"

record ProviderConfig =
  Label :: string
  IsActivated :: bool
  Token :: string
  AuthorizedUsers :: "User list"

text \<open>
  The front-end provider contract: a label, \<^verbatim>\<open>Message(capsule)\<close> and \<^verbatim>\<open>Stop()\<close>, which
  act on the provider's own state \<open>'s\<close>. Every provider is given the manager's one
  \<^verbatim>\<open>userInput\<close> channel when it is initialized, so \<^verbatim>\<open>Stop()\<close> also acts on that
  channel: its first argument says whether the channel is closed already, its result
  whether it is closed afterwards, and it can panic. \<^verbatim>\<open>Initialize\<close> belongs to the
  prototype kept in the registry: \<^verbatim>\<open>providerCollection\<close> maps a label to the function
  from a configuration to a live provider or an error.
\<close>

record 's frontend_Provider =
  GetLabel :: string
  Message :: "Capsule \<Rightarrow> 's \<Rightarrow> error option \<times> 's"
  Stop :: "bool \<Rightarrow> 's \<Rightarrow> (bool \<times> 's) outcome"
  state :: 's

type_synonym 's providerCollection = "string \<rightharpoonup> (Config \<Rightarrow> error + 's frontend_Provider)"

record 's Frontend =
  activatedProviders :: "'s frontend_Provider list"
  capsuleChan :: "Capsule list"
  logged :: "error list"
  stopped :: bool

text \<open>
  \<^verbatim>\<open>loadProvider\<close> (frontend.go): the range loop over the configuration, with the slice
  of providers built so far.
\<close>

fun loadProvider_range ::
  "'s providerCollection \<Rightarrow> ProviderConfig list \<Rightarrow> 's frontend_Provider list
     \<Rightarrow> error + 's frontend_Provider list" where
  "loadProvider_range collection [] providers = Inr providers"
| "loadProvider_range collection (pc # rest) providers =
     (case collection (Label pc) of
        None \<Rightarrow> Inl (NotFoundf (''provider called `'' @ Label pc @ ''`''))
      | Some Initialize \<Rightarrow>
          (if IsActivated pc
           then (case Initialize \<lparr>Config.Token = ProviderConfig.Token pc,
                                   Config.AuthorizedUsers = ProviderConfig.AuthorizedUsers pc\<rparr> of
                   Inl err \<Rightarrow> Inl (Annotate err (''loading provider '' @ Label pc))
                 | Inr p \<Rightarrow> loadProvider_range collection rest (providers @ [p]))
           else loadProvider_range collection rest providers))"

definition frontend_loadProvider ::
  "'s providerCollection \<Rightarrow> ProviderConfig list \<Rightarrow> error + 's frontend_Provider list" where
  "frontend_loadProvider collection providerConfig = loadProvider_range collection providerConfig []"

text \<open>
  \<^verbatim>\<open>New\<close> (frontend.go). Reading the configuration file is outside the model: the
  result of \<^verbatim>\<open>loadConfig\<close> is the argument.
\<close>

definition frontend_New ::
  "'s providerCollection \<Rightarrow> error + ProviderConfig list \<Rightarrow> error + 's Frontend" where
  "frontend_New collection loadConfig =
     (case loadConfig of
        Inl err \<Rightarrow> Inl (Annotate err ''initiliazing frontend'')
      | Inr providerConfig \<Rightarrow>
          (case frontend_loadProvider collection providerConfig of
             Inl err \<Rightarrow> Inl (Annotate err ''initiliazing frontend'')
           | Inr providers \<Rightarrow>
               Inr \<lparr>activatedProviders = providers, capsuleChan = [], logged = [],
                    stopped = False\<rparr>))"

text \<open>\<^verbatim>\<open>loadProvider\<close> (backend.go): one configured label.\<close>

record backend_Config =
  UserID :: UUID
  Label :: string
  URL :: string
  Version :: string
  Token :: string
  AssistantID :: string

definition backend_loadProvider ::
  "(string \<rightharpoonup> (backend_Config \<Rightarrow> error + backend_Provider)) \<Rightarrow> backend_Config
     \<Rightarrow> error + backend_Provider" where
  "backend_loadProvider collection providerConfig =
     (case collection (backend_Config.Label providerConfig) of
        None \<Rightarrow> Inl (NotFoundf (''provider called `'' @ backend_Config.Label providerConfig @ ''`''))
      | Some Initialize \<Rightarrow>
          (case Initialize providerConfig of
             Inl err \<Rightarrow>
               Inl (Annotate err (''loading provider '' @ backend_Config.Label providerConfig))
           | Inr p \<Rightarrow> Inr p))"

text \<open>\<^verbatim>\<open>Frontend.sendToBackend\<close>: a fresh capsule, its responses and error at their zero values.\<close>

definition sendToBackend :: "'s Frontend \<Rightarrow> CapsuleProvider \<Rightarrow> 's Frontend" where
  "sendToBackend f userInput =
     f\<lparr>capsuleChan := capsuleChan f @
        [\<lparr>Capsule.OriginalMessage = CapsuleProvider.OriginalMessage userInput,
          Capsule.FrontendProvider = CapsuleProvider.ProviderLabel userInput,
          Capsule.Content = CapsuleProvider.Content userInput,
          Capsule.User = CapsuleProvider.User userInput,
          Capsule.Responses = [],
          Capsule.Error = None\<rparr>]\<rparr>"



text \<open>
  \<^verbatim>\<open>Frontend.stopProviders\<close>: the range loop calls \<^verbatim>\<open>Stop()\<close> on each provider in turn,
  \<open>closed\<close> saying whether the \<^verbatim>\<open>userInput\<close> channel is closed by then. A panic in one
  \<^verbatim>\<open>Stop()\<close> ends the loop there.
\<close>

fun stopProviders_range ::
  "bool \<Rightarrow> 's frontend_Provider list \<Rightarrow> 's frontend_Provider list outcome" where
  "stopProviders_range closed [] = Returns []"
| "stopProviders_range closed (p # ps) =
     (case Stop p closed (state p) of
        Panics \<Rightarrow> Panics
      | Returns (closed', s') \<Rightarrow>
          (case stopProviders_range closed' ps of
             Panics \<Rightarrow> Panics
           | Returns ps' \<Rightarrow> Returns (p\<lparr>state := s'\<rparr> # ps')))"

definition stopProviders :: "bool \<Rightarrow> 's Frontend \<Rightarrow> 's Frontend outcome" where
  "stopProviders closed f =
     (case stopProviders_range closed (activatedProviders f) of
        Panics \<Rightarrow> Panics
      | Returns ps' \<Rightarrow> Returns (f\<lparr>activatedProviders := ps', stopped := True\<rparr>))"



section \<open>The telegram binding\<close>

text \<open>
  Of telebot's \<^verbatim>\<open>tb.User\<close> and \<^verbatim>\<open>tb.Message\<close> the fields the binding reads. The bot is
  the list of what \<^verbatim>\<open>Bot.Send\<close> was called with (recipient and text), in order;
  \<open>userInput\<close> is the list of what was sent to the manager on that channel.
\<close>

record tb_User =
  ID :: int
  Username :: string

record tb_Message =
  Sender :: tb_User
  Text :: string

record message =
  uuid :: UUID
  contentType :: ContentType
  content :: string
  user :: tb_User

record Telegram =
  Bot :: "(tb_User \<times> string) list"
  AuthorizedUsers :: "User list"
  pendingMessages :: "message list"
  userInput :: "CapsuleProvider list"
  stopped :: bool

definition label :: string where
  "label = ''telegram''"

definition ErrorStatus :: string where
  "ErrorStatus = ''Error''"

definition SystemLog :: "string \<Rightarrow> string \<Rightarrow> string" where
  "SystemLog text status = ''[SYSTEM]'' @ status @ '': '' @ text"

definition Bot_Send :: "Telegram \<Rightarrow> tb_User \<Rightarrow> string \<Rightarrow> Telegram" where
  "Bot_Send t to what = t\<lparr>Bot := Bot t @ [(to, what)]\<rparr>"

text \<open>
  \<^verbatim>\<open>Telegram.Initialize\<close>: \<^verbatim>\<open>tb.NewBot\<close> talks to the network, so whether it fails
  for a token is the parameter \<open>NewBot\<close>.
\<close>

definition telegram_GetLabel :: string where
  "telegram_GetLabel = label"

text \<open>
  \<^verbatim>\<open>Telegram.Stop\<close>: \<^verbatim>\<open>close(t.userInput)\<close>, which panics when the channel is closed
  already, then \<^verbatim>\<open>t.Bot.Stop()\<close>.
\<close>

definition telegram_Stop :: "bool \<Rightarrow> Telegram \<Rightarrow> (bool \<times> Telegram) outcome" where
  "telegram_Stop closed t =
     (if closed then Panics else Returns (True, t\<lparr>Telegram.stopped := True\<rparr>))"

text \<open>
  \<^verbatim>\<open>findPendingMessage\<close>: the range loop, with the messages already passed; at the
  first match the slice is cut around it and the message returned.
\<close>

fun findPendingMessage_range ::
  "message list \<Rightarrow> message list \<Rightarrow> UUID \<Rightarrow> (message \<times> message list) option" where
  "findPendingMessage_range before [] u = None"
| "findPendingMessage_range before (m # rest) u =
     (if uuid m = u then Some (m, before @ rest)
      else findPendingMessage_range (before @ [m]) rest u)"

definition findPendingMessage :: "Telegram \<Rightarrow> UUID \<Rightarrow> (error + message) \<times> Telegram" where
  "findPendingMessage t u =
     (if length (pendingMessages t) = 0
      then (Inl (NotProvisionedf ''pending messages''), t)
      else (case findPendingMessage_range [] (pendingMessages t) u of
              Some (m, remaining) \<Rightarrow> (Inr m, t\<lparr>pendingMessages := remaining\<rparr>)
            | None \<Rightarrow> (Inl (NotFoundf (''message (uuid: '' @ UUID_String u @ '')'')), t)))"

definition sendTextMessage :: "Telegram \<Rightarrow> UUID \<Rightarrow> string list \<Rightarrow> error option \<times> Telegram" where
  "sendTextMessage t respondTo responses =
     (case findPendingMessage t respondTo of
        (Inl err, t') \<Rightarrow> (Some err, t')
      | (Inr pendingMessage, t') \<Rightarrow>
          (None, foldl (\<lambda>t response. Bot_Send t (user pendingMessage) response) t' responses))"

definition sendErrorMessage :: "Telegram \<Rightarrow> UUID \<Rightarrow> error \<Rightarrow> error option \<times> Telegram" where
  "sendErrorMessage t respondTo error =
     (case findPendingMessage t respondTo of
        (Inl err, t') \<Rightarrow> (Some err, t')
      | (Inr pendingMessage, t') \<Rightarrow>
          (None, Bot_Send t' (user pendingMessage) (SystemLog (ErrorText error) ErrorStatus)))"

text \<open>\<^verbatim>\<open>Telegram.Message\<close>: the error branch needs an error that is not nil and whose text is not empty.\<close>

definition telegram_Message :: "Capsule \<Rightarrow> Telegram \<Rightarrow> error option \<times> Telegram" where
  "telegram_Message c t =
     (case Capsule.Error c of
        Some err \<Rightarrow>
          (if length (ErrorText err) > 0
           then sendErrorMessage t (Capsule.OriginalMessage c) err
           else sendTextMessage t (Capsule.OriginalMessage c) (Responses c))
      | None \<Rightarrow> sendTextMessage t (Capsule.OriginalMessage c) (Responses c))"

definition telegram_Initialize ::
  "(string \<Rightarrow> error option) \<Rightarrow> Config \<Rightarrow> error + Telegram frontend_Provider" where
  "telegram_Initialize NewBot config =
     (case NewBot (Config.Token config) of
        Some err \<Rightarrow> Inl (Annotate err ''initializing telegram'')
      | None \<Rightarrow>
          Inr \<lparr>GetLabel = telegram_GetLabel, Message = telegram_Message, Stop = telegram_Stop,
               state = \<lparr>Bot = [], Telegram.AuthorizedUsers = Config.AuthorizedUsers config,
                        pendingMessages = [], userInput = [], Telegram.stopped = False\<rparr>\<rparr>)"

definition providerCollection :: "(string \<Rightarrow> error option) \<Rightarrow> Telegram providerCollection" where
  "providerCollection NewBot = [''telegram'' \<mapsto> telegram_Initialize NewBot]"

definition messageToCapsuleProvider :: "message \<Rightarrow> CapsuleProvider" where
  "messageToCapsuleProvider msg =
     \<lparr>CapsuleProvider.OriginalMessage = uuid msg,
      CapsuleProvider.ProviderLabel = label,
      CapsuleProvider.Content = content msg,
      CapsuleProvider.User = Username (user msg)\<rparr>"

text \<open>
  \<^verbatim>\<open>processUserMessage\<close>: \<open>NewRandom\<close> is what \<^verbatim>\<open>uuid.NewRandom()\<close> returns for this
  call. The message is recorded and forwarded only in the Text case of the switch.
\<close>

definition processUserMessage ::
  "error + UUID \<Rightarrow> Telegram \<Rightarrow> tb_Message \<Rightarrow> ContentType \<Rightarrow> error option \<times> Telegram" where
  "processUserMessage NewRandom t userMessage ctype =
     (case NewRandom of
        Inl err \<Rightarrow> (Some (Annotate err ''proccessing user message''), t)
      | Inr u \<Rightarrow>
          (if ctype = provider_Text
           then (let message = \<lparr>uuid = u, contentType = provider_Text,
                                content = tb_Message.Text userMessage,
                                user = Sender userMessage\<rparr>
                 in (None, t\<lparr>pendingMessages := pendingMessages t @ [message],
                             userInput := userInput t @ [messageToCapsuleProvider message]\<rparr>))
           else if ctype = provider_Audio
           then (Some (NotImplementedf (ctype @ '' message handling'')), t)
           else if ctype = provider_Image
           then (Some (NotImplementedf (ctype @ '' message handling'')), t)
           else (Some (NotFoundf (''input type '' @ ctype)), t)))"

text \<open>
  The handler of text messages: the range loop over the authorized users, left at the
  first user whose name and ID are both the sender's.
\<close>

fun userIsValid :: "User list \<Rightarrow> tb_User \<Rightarrow> bool" where
  "userIsValid [] sender = False"
| "userIsValid (authorized # rest) sender =
     (if User.Name authorized = Username sender \<and> User.ID authorized = tb_User.ID sender then True
      else userIsValid rest sender)"

definition textMessageHandler :: "error + UUID \<Rightarrow> Telegram \<Rightarrow> tb_Message \<Rightarrow> Telegram" where
  "textMessageHandler NewRandom t message =
     (if \<not> userIsValid (Telegram.AuthorizedUsers t) (Sender message) then t
      else (case processUserMessage NewRandom t message provider_Text of
              (Some err, t') \<Rightarrow> Bot_Send t' (Sender message) (SystemLog (ErrorText err) ErrorStatus)
            | (None, t') \<Rightarrow> t'))"

definition photoMessageHandler :: "Telegram \<Rightarrow> tb_Message \<Rightarrow> Telegram" where
  "photoMessageHandler t message =
     Bot_Send t (Sender message) (SystemLog ''Photo message handling is not implemented'' ErrorStatus)"

definition audioMessageHandler :: "Telegram \<Rightarrow> tb_Message \<Rightarrow> Telegram" where
  "audioMessageHandler t message =
     Bot_Send t (Sender message) (SystemLog ''Audio message handling is not implemented'' ErrorStatus)"

section \<open>The watson binding: converting a response\<close>

text \<open>
  The structures \<^verbatim>\<open>json.Unmarshal\<close> fills. A pointer that may be nil is an option;
  reading through a nil pointer panics. The JSON decoder is outside the repository and is
  the parameter \<open>json_Unmarshal\<close>.
\<close>

record Generic =
  ResponseType :: string
  Text :: string

record watson_Intent =
  Intent :: string
  Confidence :: "32 word"

record OutputWatson =
  Generics :: "Generic option list"
  Intents :: "watson_Intent option list"

record ResultWatson =
  Output :: "OutputWatson option"

record ResponseWatson =
  StatusCode :: int
  Result :: "ResultWatson option"

text \<open>
  \<^verbatim>\<open>strings.Split(s, sep)\<close> for a separator of one byte: the pieces of \<open>s\<close> between
  the separators, one more than there are separators (the empty string gives one empty
  piece).
\<close>

fun Split :: "string \<Rightarrow> char \<Rightarrow> string list" where
  "Split [] sep = [[]]"
| "Split (c # cs) sep =
     (if c = sep then [] # Split cs sep
      else (case Split cs sep of
              [] \<Rightarrow> [[c]]
            | piece # pieces \<Rightarrow> (c # piece) # pieces))"

text \<open>
  \<^verbatim>\<open>strings.Join\<close> with a separator of one byte, to say what the pieces of a split are.
\<close>

fun Join :: "string list \<Rightarrow> char \<Rightarrow> string" where
  "Join [] sep = []"
| "Join [piece] sep = piece"
| "Join (piece # pieces) sep = piece @ sep # Join pieces sep"

definition newline :: char where
  "newline = CHR 0x0A"

fun generics_range :: "Generic option list \<Rightarrow> Output list \<Rightarrow> Output list outcome" where
  "generics_range [] outputs = Returns outputs"
| "generics_range (None # rest) outputs = Panics"
| "generics_range (Some generic # rest) outputs =
     generics_range rest
       (foldl (\<lambda>outputs response.
                 outputs @ [\<lparr>Output.ResponseType = Generic.ResponseType generic,
                              Output.Text = response\<rparr>])
          outputs (Split (Generic.Text generic) newline))"

fun intents_range :: "watson_Intent option list \<Rightarrow> Intent list \<Rightarrow> Intent list outcome" where
  "intents_range [] intents = Returns intents"
| "intents_range (None # rest) intents = Panics"
| "intents_range (Some intent # rest) intents =
     intents_range rest
       (intents @ [\<lparr>Intent.Intent = watson_Intent.Intent intent,
                     Intent.Confidence = watson_Intent.Confidence intent\<rparr>])"

definition convertResponse ::
  "(string \<Rightarrow> error + ResponseWatson) \<Rightarrow> string \<Rightarrow> (error + Response) outcome" where
  "convertResponse json_Unmarshal response =
     (case json_Unmarshal response of
        Inl err \<Rightarrow> Returns (Inl (Annotate err ''converting watson response''))
      | Inr wResponse \<Rightarrow>
          (case Result wResponse of
             None \<Rightarrow> Panics
           | Some result \<Rightarrow>
               (case Output result of
                  None \<Rightarrow> Panics
                | Some output \<Rightarrow>
                    (case generics_range (Generics output) [] of
                       Panics \<Rightarrow> Panics
                     | Returns outputs \<Rightarrow>
                         (case intents_range (Intents output) [] of
                            Panics \<Rightarrow> Panics
                          | Returns intents \<Rightarrow>
                              Returns (Inr \<lparr>Response.StatusCode = ResponseWatson.StatusCode wResponse,
                                            Outputs = outputs,
                                            Response.Intents = intents\<rparr>))))))"

section \<open>Properties\<close>

lemma Version_Nil: "UUID_Version Nil_UUID = 0"
  by (simp add: UUID_Version_def Nil_UUID_def byte_of_def)

lemma Version_String_0: "Version_String 0 = ''VERSION_0''"
  by (simp add: Version_String_def decimal.simps)

lemma uuid_branch_dead:
  "(u = Nil_UUID \<and> Version_String (UUID_Version u) = ''VERSION_4'') = False"
proof -
  have "\<not> (u = Nil_UUID \<and> Version_String (UUID_Version u) = ''VERSION_4'')"
  proof
    assume h: "u = Nil_UUID \<and> Version_String (UUID_Version u) = ''VERSION_4''"
    then have "Version_String (UUID_Version Nil_UUID) = ''VERSION_4''" by blast
    then show False by (simp add: Version_Nil Version_String_0)
  qed
  then show ?thesis by simp
qed

lemma capsuleIsValid_kinds:
  "capsuleIsValid capsule = Some e \<Longrightarrow> kind e = NotProvisioned \<or> kind e = NotAssigned"
  unfolding capsuleIsValid_def uuid_branch_dead
  by (simp add: NotProvisionedf_def NotAssignedf_def split: if_splits) auto

text \<open>
  C5. In \<^verbatim>\<open>capsuleIsValid\<close> the condition of the first branch, "RespondTo is the nil
  UUID and its version string is VERSION_4", is false for every capsule: the nil UUID has
  version 0, which prints as VERSION_0. So \<^verbatim>\<open>capsuleIsValid\<close> returns the "not valid"
  error for no capsule at all, whatever the message.
\<close>

theorem capsuleIsValid_uuid_branch_unreachable:
  "\<not> (CapsuleIn.RespondTo capsule = Nil_UUID
        \<and> Version_String (UUID_Version (CapsuleIn.RespondTo capsule)) = ''VERSION_4'')
   \<and> (\<forall>e. capsuleIsValid capsule = Some e \<longrightarrow> kind e \<noteq> NotValid)"
proof (intro conjI allI impI)
  show "\<not> (CapsuleIn.RespondTo capsule = Nil_UUID
        \<and> Version_String (UUID_Version (CapsuleIn.RespondTo capsule)) = ''VERSION_4'')"
    by (simp only: uuid_branch_dead not_False_eq_True)
next
  fix e assume "capsuleIsValid capsule = Some e"
  then have "kind e = NotProvisioned \<or> kind e = NotAssigned" by (rule capsuleIsValid_kinds)
  then show "kind e \<noteq> NotValid" by auto
qed

theorem capsuleIsValid_uuid_branch_unreachable_witness:
  "capsuleIsValid \<lparr>CapsuleIn.RespondTo = Nil_UUID, CapsuleIn.ProviderLabel = ''telegram'',
       CapsuleIn.ContentType = provider_Text, CapsuleIn.Content = [], CapsuleIn.User = ''bob''\<rparr>
     = Some (NotProvisionedf ''content (capsule 00000000-0000-0000-0000-000000000000)'')
   \<and> kind (NotProvisionedf ''content (capsule 00000000-0000-0000-0000-000000000000)'') \<noteq> NotValid"
proof -
  have s: "UUID_String Nil_UUID = ''00000000-0000-0000-0000-000000000000''"
    by (simp add: UUID_String_def hex_bytes_def hex_byte_def byte_of_def Nil_UUID_def)
  have v: "capsuleIsValid \<lparr>CapsuleIn.RespondTo = Nil_UUID, CapsuleIn.ProviderLabel = ''telegram'',
       CapsuleIn.ContentType = provider_Text, CapsuleIn.Content = [], CapsuleIn.User = ''bob''\<rparr>
     = Some (NotProvisionedf ''content (capsule 00000000-0000-0000-0000-000000000000)'')"
    unfolding capsuleIsValid_def uuid_branch_dead by (simp add: s)
  from capsuleIsValid_uuid_branch_unreachable
      [of "\<lparr>CapsuleIn.RespondTo = Nil_UUID, CapsuleIn.ProviderLabel = ''telegram'',
       CapsuleIn.ContentType = provider_Text, CapsuleIn.Content = [], CapsuleIn.User = ''bob''\<rparr>"]
  have "\<forall>e. capsuleIsValid \<lparr>CapsuleIn.RespondTo = Nil_UUID, CapsuleIn.ProviderLabel = ''telegram'',
       CapsuleIn.ContentType = provider_Text, CapsuleIn.Content = [], CapsuleIn.User = ''bob''\<rparr> = Some e
         \<longrightarrow> kind e \<noteq> NotValid" by (rule conjunct2)
  then have "kind (NotProvisionedf ''content (capsule 00000000-0000-0000-0000-000000000000)'') \<noteq> NotValid"
    using v by (elim allE impE) assumption+
  with v show ?thesis by (intro conjI)
qed

subsection \<open>The back-end manager's listening loop\<close>

lemma foldl_append_responses:
  "foldl (\<lambda>c output. c\<lparr>Responses := Responses c @ [Output.Text output]\<rparr>) c outs
     = c\<lparr>Responses := Responses c @ map Output.Text outs\<rparr>"
  by (induction outs arbitrary: c) simp_all

lemma backend_receive_appends_outputs:
  assumes "backend_Provider.Message (Backend.activatedProvider b) (Capsule.Content c) = Inr response"
  shows "Backend.capsuleChan (backend_receive b c)
           = Backend.capsuleChan b @ [c\<lparr>Responses := Responses c @ map Output.Text (Outputs response)\<rparr>]"
  using assms by (simp add: backend_receive_def Let_def foldl_append_responses)

lemma sendToBackend_capsule:
  assumes "Frontend.capsuleChan (sendToBackend f input) = Frontend.capsuleChan f @ [c]"
  shows "Responses c = [] \<and> Capsule.Error c = None
         \<and> Capsule.Content c = CapsuleProvider.Content input"
  using assms by (auto simp: sendToBackend_def)

text \<open>
  C2. Round trip with a successful provider call. Let \<open>c\<close> be the capsule the front-end
  manager puts on the shared channel for a user input (\<^verbatim>\<open>sendToBackend\<close>), and let the
  provider's \<^verbatim>\<open>Message\<close> on its content succeed with a response whose output texts
  are \<open>A\<close>, \<open>B\<close>. Then the back-end manager sends exactly one capsule back: \<open>c\<close> with
  responses \<open>[A, B]\<close>, in that order. (For any capsule the outputs are appended, in the
  provider's order, to the responses it carries: \<open>backend_receive_appends_outputs\<close>.)
\<close>

theorem round_trip_responses:
  assumes sent: "Frontend.capsuleChan (sendToBackend f input) = Frontend.capsuleChan f @ [c]"
      and ok: "backend_Provider.Message (Backend.activatedProvider b) (Capsule.Content c) = Inr response"
      and outs: "map Output.Text (Outputs response) = [A, B]"
  shows "Backend.capsuleChan (backend_receive b c) = Backend.capsuleChan b @ [c\<lparr>Responses := [A, B]\<rparr>]"
proof -
  from sent have "Responses c = []" by (simp add: sendToBackend_capsule)
  with backend_receive_appends_outputs [OF ok] outs show ?thesis by simp
qed

theorem round_trip_responses_witness:
  "Backend.capsuleChan
     (backend_receive
        \<lparr>Backend.activatedProvider =
           \<lparr>backend_Provider.Message =
              (\<lambda>text. Inr \<lparr>Response.StatusCode = 200,
                              Outputs = [\<lparr>Output.ResponseType = ''text'', Output.Text = ''A''\<rparr>,
                                         \<lparr>Output.ResponseType = ''text'', Output.Text = ''B''\<rparr>],
                              Response.Intents = []\<rparr>),
            backend_Provider.GetLabel = ''watson''\<rparr>,
         Backend.provider_calls = [], Backend.capsuleChan = [], Backend.logged = [],
         Backend.stopped = False\<rparr>
        \<lparr>Capsule.OriginalMessage = 1, FrontendProvider = ''telegram'', Capsule.Content = ''hello'',
         Capsule.User = ''bob'', Responses = [], Capsule.Error = None\<rparr>)
   = [\<lparr>Capsule.OriginalMessage = 1, FrontendProvider = ''telegram'', Capsule.Content = ''hello'',
       Capsule.User = ''bob'', Responses = [''A'', ''B''], Capsule.Error = None\<rparr>]"
  using round_trip_responses
    [of "\<lparr>Frontend.activatedProviders = [] :: unit frontend_Provider list,
           Frontend.capsuleChan = [], Frontend.logged = [], Frontend.stopped = False\<rparr>"
        "\<lparr>CapsuleProvider.OriginalMessage = 1, CapsuleProvider.ProviderLabel = ''telegram'',
          CapsuleProvider.Content = ''hello'', CapsuleProvider.User = ''bob''\<rparr>"
        "\<lparr>Capsule.OriginalMessage = 1, FrontendProvider = ''telegram'', Capsule.Content = ''hello'',
          Capsule.User = ''bob'', Responses = [], Capsule.Error = None\<rparr>"
        "\<lparr>Backend.activatedProvider =
           \<lparr>backend_Provider.Message =
              (\<lambda>text. Inr \<lparr>Response.StatusCode = 200,
                              Outputs = [\<lparr>Output.ResponseType = ''text'', Output.Text = ''A''\<rparr>,
                                         \<lparr>Output.ResponseType = ''text'', Output.Text = ''B''\<rparr>],
                              Response.Intents = []\<rparr>),
            backend_Provider.GetLabel = ''watson''\<rparr>,
         Backend.provider_calls = [], Backend.capsuleChan = [], Backend.logged = [],
         Backend.stopped = False\<rparr>"
        "\<lparr>Response.StatusCode = 200,
          Outputs = [\<lparr>Output.ResponseType = ''text'', Output.Text = ''A''\<rparr>,
                     \<lparr>Output.ResponseType = ''text'', Output.Text = ''B''\<rparr>],
          Response.Intents = []\<rparr>"
        "''A''" "''B''"]
  by (simp add: sendToBackend_def)

text \<open>
  C3. When the provider's \<^verbatim>\<open>Message\<close> fails with \<open>err\<close>, the back-end manager sends
  exactly one capsule back on the shared channel: the received capsule with \<open>err\<close> in its
  error field. Its responses are left as they were received (empty on the way from the
  front-end), and nothing else is logged in place of the send.
\<close>

theorem backend_receive_failure:
  assumes "backend_Provider.Message (Backend.activatedProvider b) (Capsule.Content c) = Inl err"
  shows "Backend.capsuleChan (backend_receive b c) = Backend.capsuleChan b @ [c\<lparr>Capsule.Error := Some err\<rparr>]
         \<and> Responses (c\<lparr>Capsule.Error := Some err\<rparr>) = Responses c
         \<and> Backend.logged (backend_receive b c) = Backend.logged b"
  using assms by (simp add: backend_receive_def Let_def errorHandler_def)

theorem backend_receive_failure_witness:
  "Backend.capsuleChan
     (backend_receive
        \<lparr>Backend.activatedProvider =
           \<lparr>backend_Provider.Message = (\<lambda>text. Inl (Err Plain ''connection refused'')),
            backend_Provider.GetLabel = ''watson''\<rparr>,
         Backend.provider_calls = [], Backend.capsuleChan = [], Backend.logged = [],
         Backend.stopped = False\<rparr>
        \<lparr>Capsule.OriginalMessage = 1, FrontendProvider = ''telegram'', Capsule.Content = ''hello'',
         Capsule.User = ''bob'', Responses = [], Capsule.Error = None\<rparr>)
   = [\<lparr>Capsule.OriginalMessage = 1, FrontendProvider = ''telegram'', Capsule.Content = ''hello'',
       Capsule.User = ''bob'', Responses = [],
       Capsule.Error = Some (Err Plain ''connection refused'')\<rparr>]"
  using backend_receive_failure
    [of "\<lparr>Backend.activatedProvider =
           \<lparr>backend_Provider.Message = (\<lambda>text. Inl (Err Plain ''connection refused'')),
            backend_Provider.GetLabel = ''watson''\<rparr>,
         Backend.provider_calls = [], Backend.capsuleChan = [], Backend.logged = [],
         Backend.stopped = False\<rparr>"
        "\<lparr>Capsule.OriginalMessage = 1, FrontendProvider = ''telegram'', Capsule.Content = ''hello'',
         Capsule.User = ''bob'', Responses = [], Capsule.Error = None\<rparr>"
        "Err Plain ''connection refused''"]
  by simp

text \<open>Over a whole run, every capsule received before the channel is closed is answered by one capsule.\<close>

lemma backend_Start_one_reply_each:
  "length (Backend.capsuleChan (backend_Start b received))
     = length (Backend.capsuleChan b) + length (takeWhile (\<lambda>r. r \<noteq> None) received)"
proof (induction b received rule: backend_Start.induct)
  case (3 b c rest)
  have "length (Backend.capsuleChan (backend_receive b c)) = Suc (length (Backend.capsuleChan b))"
    by (cases "backend_Provider.Message (Backend.activatedProvider b) (Capsule.Content c)")
       (simp_all add: backend_receive_def Let_def errorHandler_def)
  with 3 show ?case by simp
qed simp_all

subsection \<open>The telegram binding: pending messages and replies\<close>

lemma findPendingMessage_range_miss:
  "u \<notin> uuid ` set ms \<Longrightarrow> findPendingMessage_range before ms u = None"
  by (induction ms arbitrary: before) auto

lemma findPendingMessage_range_first:
  "u \<notin> uuid ` set pre \<Longrightarrow> uuid m = u \<Longrightarrow>
   findPendingMessage_range before (pre @ m # post) u = Some (m, before @ pre @ post)"
  by (induction pre arbitrary: before) auto

lemma distinct_uuid_split:
  assumes "distinct (map uuid ms)" and "m \<in> set ms"
  shows "\<exists>pre post. ms = pre @ m # post \<and> uuid m \<notin> uuid ` set pre \<and> uuid m \<notin> uuid ` set post
           \<and> remove1 m ms = pre @ post"
proof -
  from assms(2) obtain pre post where ms: "ms = pre @ m # post" and "m \<notin> set pre"
    by (auto dest: split_list_first)
  from assms(1) ms have "uuid m \<notin> uuid ` set pre" "uuid m \<notin> uuid ` set post" by auto
  moreover from ms \<open>m \<notin> set pre\<close> have "remove1 m ms = pre @ post" by (simp add: remove1_append)
  ultimately show ?thesis using ms by blast
qed

lemma findPendingMessage_miss:
  assumes "u \<notin> uuid ` set (pendingMessages t)"
  shows "findPendingMessage t u =
           (Inl (if pendingMessages t = [] then NotProvisionedf ''pending messages''
                 else NotFoundf (''message (uuid: '' @ UUID_String u @ '')'')), t)"
  using assms by (simp add: findPendingMessage_def findPendingMessage_range_miss)

lemma findPendingMessage_hit:
  assumes "distinct (map uuid (pendingMessages t))" and "m \<in> set (pendingMessages t)"
  shows "findPendingMessage t (uuid m) = (Inr m, t\<lparr>pendingMessages := remove1 m (pendingMessages t)\<rparr>)"
proof -
  from distinct_uuid_split [OF assms] obtain pre post where
    ms: "pendingMessages t = pre @ m # post" and pre: "uuid m \<notin> uuid ` set pre"
    and rm: "remove1 m (pendingMessages t) = pre @ post" by blast
  have "findPendingMessage_range [] (pendingMessages t) (uuid m) = Some (m, pre @ post)"
    unfolding ms using findPendingMessage_range_first [OF pre refl, of "[]" post] by simp
  then show ?thesis using ms rm by (simp add: findPendingMessage_def)
qed

lemma UUID_String_1: "UUID_String 1 = ''00000000-0000-0000-0000-000000000001''"
  by (simp add: UUID_String_def hex_bytes_def hex_byte_def byte_of_def)

text \<open>
  C4 (as amended). A lookup for an identifier that no pending message carries returns an
  error and leaves the table as it is: the "not provisioned" error when the table is
  empty, the "not found" error otherwise. When the identifiers in the table are distinct,
  a lookup for the identifier of a pending message returns that message and removes it,
  and a second lookup for the same identifier returns one of these two errors again,
  "not provisioned" when the first lookup emptied the table, and never the message.
\<close>

theorem findPendingMessage_consumes:
  "(u \<notin> uuid ` set (pendingMessages t) \<longrightarrow>
      findPendingMessage t u =
        (Inl (if pendingMessages t = [] then NotProvisionedf ''pending messages''
              else NotFoundf (''message (uuid: '' @ UUID_String u @ '')'')), t))
   \<and> (distinct (map uuid (pendingMessages t)) \<and> m \<in> set (pendingMessages t) \<and> uuid m = u \<longrightarrow>
      findPendingMessage t u = (Inr m, t\<lparr>pendingMessages := remove1 m (pendingMessages t)\<rparr>)
      \<and> findPendingMessage (t\<lparr>pendingMessages := remove1 m (pendingMessages t)\<rparr>) u =
          (Inl (if remove1 m (pendingMessages t) = [] then NotProvisionedf ''pending messages''
                else NotFoundf (''message (uuid: '' @ UUID_String u @ '')'')),
           t\<lparr>pendingMessages := remove1 m (pendingMessages t)\<rparr>))"
proof (intro conjI impI)
  assume "u \<notin> uuid ` set (pendingMessages t)"
  then show "findPendingMessage t u =
        (Inl (if pendingMessages t = [] then NotProvisionedf ''pending messages''
              else NotFoundf (''message (uuid: '' @ UUID_String u @ '')'')), t)"
    by (rule findPendingMessage_miss)
next
  assume h: "distinct (map uuid (pendingMessages t)) \<and> m \<in> set (pendingMessages t) \<and> uuid m = u"
  then show "findPendingMessage t u = (Inr m, t\<lparr>pendingMessages := remove1 m (pendingMessages t)\<rparr>)"
    using findPendingMessage_hit [of t m] by blast
next
  assume h: "distinct (map uuid (pendingMessages t)) \<and> m \<in> set (pendingMessages t) \<and> uuid m = u"
  then have "u \<notin> uuid ` set (remove1 m (pendingMessages t))"
    using distinct_uuid_split [of "pendingMessages t" m] by auto
  then have "u \<notin> uuid ` set (pendingMessages (t\<lparr>pendingMessages := remove1 m (pendingMessages t)\<rparr>))"
    by simp
  from findPendingMessage_miss [OF this]
  show "findPendingMessage (t\<lparr>pendingMessages := remove1 m (pendingMessages t)\<rparr>) u =
          (Inl (if remove1 m (pendingMessages t) = [] then NotProvisionedf ''pending messages''
                else NotFoundf (''message (uuid: '' @ UUID_String u @ '')'')),
           t\<lparr>pendingMessages := remove1 m (pendingMessages t)\<rparr>)"
    by simp
qed

theorem findPendingMessage_consumes_witness:
  "findPendingMessage
     \<lparr>Bot = [], Telegram.AuthorizedUsers = [],
      pendingMessages = [\<lparr>uuid = 1, contentType = provider_Text, content = ''hello'',
                           user = \<lparr>tb_User.ID = 42, Username = ''bob''\<rparr>\<rparr>,
                         \<lparr>uuid = 2, contentType = provider_Text, content = ''again'',
                           user = \<lparr>tb_User.ID = 42, Username = ''bob''\<rparr>\<rparr>],
      userInput = [], Telegram.stopped = False\<rparr> 1
   = (Inr \<lparr>uuid = 1, contentType = provider_Text, content = ''hello'',
           user = \<lparr>tb_User.ID = 42, Username = ''bob''\<rparr>\<rparr>,
      \<lparr>Bot = [], Telegram.AuthorizedUsers = [],
       pendingMessages = [\<lparr>uuid = 2, contentType = provider_Text, content = ''again'',
                            user = \<lparr>tb_User.ID = 42, Username = ''bob''\<rparr>\<rparr>],
       userInput = [], Telegram.stopped = False\<rparr>)
   \<and> findPendingMessage
       \<lparr>Bot = [], Telegram.AuthorizedUsers = [],
        pendingMessages = [\<lparr>uuid = 2, contentType = provider_Text, content = ''again'',
                             user = \<lparr>tb_User.ID = 42, Username = ''bob''\<rparr>\<rparr>],
        userInput = [], Telegram.stopped = False\<rparr> 1
     = (Inl (NotFoundf ''message (uuid: 00000000-0000-0000-0000-000000000001)''),
        \<lparr>Bot = [], Telegram.AuthorizedUsers = [],
         pendingMessages = [\<lparr>uuid = 2, contentType = provider_Text, content = ''again'',
                              user = \<lparr>tb_User.ID = 42, Username = ''bob''\<rparr>\<rparr>],
         userInput = [], Telegram.stopped = False\<rparr>)"
  using findPendingMessage_consumes
    [of 1 "\<lparr>Bot = [], Telegram.AuthorizedUsers = [],
      pendingMessages = [\<lparr>uuid = 1, contentType = provider_Text, content = ''hello'',
                           user = \<lparr>tb_User.ID = 42, Username = ''bob''\<rparr>\<rparr>,
                         \<lparr>uuid = 2, contentType = provider_Text, content = ''again'',
                           user = \<lparr>tb_User.ID = 42, Username = ''bob''\<rparr>\<rparr>],
      userInput = [], Telegram.stopped = False\<rparr>"
      "\<lparr>uuid = 1, contentType = provider_Text, content = ''hello'',
           user = \<lparr>tb_User.ID = 42, Username = ''bob''\<rparr>\<rparr>"]
    findPendingMessage_consumes
    [of 1 "\<lparr>Bot = [], Telegram.AuthorizedUsers = [],
      pendingMessages = [\<lparr>uuid = 2, contentType = provider_Text, content = ''again'',
                           user = \<lparr>tb_User.ID = 42, Username = ''bob''\<rparr>\<rparr>],
      userInput = [], Telegram.stopped = False\<rparr>"]
  by (simp add: UUID_String_1)

text \<open>
  The claim as stated fails on a table of one message: the second lookup answers with the
  "not provisioned" error, which is not a "not found" error.
\<close>

theorem findPendingMessage_consumes_counterexample:
  "fst (findPendingMessage
          \<lparr>Bot = [], Telegram.AuthorizedUsers = [],
           pendingMessages = [\<lparr>uuid = 1, contentType = provider_Text, content = ''hello'',
                                user = \<lparr>tb_User.ID = 42, Username = ''bob''\<rparr>\<rparr>],
           userInput = [], Telegram.stopped = False\<rparr> 1)
     = Inr \<lparr>uuid = 1, contentType = provider_Text, content = ''hello'',
            user = \<lparr>tb_User.ID = 42, Username = ''bob''\<rparr>\<rparr>
   \<and> fst (findPendingMessage
          (snd (findPendingMessage
                  \<lparr>Bot = [], Telegram.AuthorizedUsers = [],
                   pendingMessages = [\<lparr>uuid = 1, contentType = provider_Text, content = ''hello'',
                                        user = \<lparr>tb_User.ID = 42, Username = ''bob''\<rparr>\<rparr>],
                   userInput = [], Telegram.stopped = False\<rparr> 1)) 1)
     = Inl (Err NotProvisioned ''pending messages not provisioned'')
   \<and> kind (Err NotProvisioned ''pending messages not provisioned'') \<noteq> NotFound"
  by (simp add: findPendingMessage_def NotProvisionedf_def)

lemma foldl_Bot_Send:
  "foldl (\<lambda>t response. Bot_Send t to response) t responses
     = t\<lparr>Bot := Bot t @ map (\<lambda>response. (to, response)) responses\<rparr>"
  by (induction responses arbitrary: t) (simp_all add: Bot_Send_def)

lemma findPendingMessage_Bot:
  "findPendingMessage t u = (r, t') \<Longrightarrow> Bot t' = Bot t"
  by (auto simp: findPendingMessage_def split: if_splits option.splits)

lemma findPendingMessage_Inl:
  "findPendingMessage t u = (Inl miss, t') \<Longrightarrow> t' = t"
  by (auto simp: findPendingMessage_def split: if_splits option.splits)

text \<open>
  C6 (as amended). \<^verbatim>\<open>Telegram.Message\<close> first looks the capsule's identifier up in the
  pending messages. On a miss it sends nothing and returns the lookup's error. On a hit,
  a capsule whose error is present with a text that is not empty makes it send the user one
  message, the system log \<^verbatim>\<open>[SYSTEM]Error: \<close> followed by the error text, and none of
  the responses; a capsule with no error (or an error of empty text) makes it send the
  user the responses, in order.
\<close>

theorem telegram_Message_error_or_responses:
  "(findPendingMessage t (Capsule.OriginalMessage c) = (Inl miss, t') \<longrightarrow>
      telegram_Message c t = (Some miss, t))
   \<and> (findPendingMessage t (Capsule.OriginalMessage c) = (Inr pendingMessage, t') \<longrightarrow>
        (Capsule.Error c = Some err \<and> ErrorText err \<noteq> [] \<longrightarrow>
           telegram_Message c t =
             (None, t'\<lparr>Bot := Bot t @ [(user pendingMessage, ''[SYSTEM]Error: '' @ ErrorText err)]\<rparr>))
        \<and> (Capsule.Error c = None \<or> Capsule.Error c = Some err \<and> ErrorText err = [] \<longrightarrow>
           telegram_Message c t =
             (None, t'\<lparr>Bot := Bot t @ map (\<lambda>response. (user pendingMessage, response)) (Responses c)\<rparr>)))"
proof (intro conjI impI)
  assume f: "findPendingMessage t (Capsule.OriginalMessage c) = (Inl miss, t')"
  then have "t' = t" by (rule findPendingMessage_Inl)
  with f show "telegram_Message c t = (Some miss, t)"
    by (simp add: telegram_Message_def sendErrorMessage_def sendTextMessage_def split: option.splits)
next
  assume f: "findPendingMessage t (Capsule.OriginalMessage c) = (Inr pendingMessage, t')"
     and e: "Capsule.Error c = Some err \<and> ErrorText err \<noteq> []"
  from f have b: "Bot t' = Bot t" by (rule findPendingMessage_Bot)
  from f e b show "telegram_Message c t =
             (None, t'\<lparr>Bot := Bot t @ [(user pendingMessage, ''[SYSTEM]Error: '' @ ErrorText err)]\<rparr>)"
    by (simp add: telegram_Message_def sendErrorMessage_def Bot_Send_def SystemLog_def ErrorStatus_def)
next
  assume f: "findPendingMessage t (Capsule.OriginalMessage c) = (Inr pendingMessage, t')"
     and e: "Capsule.Error c = None \<or> Capsule.Error c = Some err \<and> ErrorText err = []"
  from f have b: "Bot t' = Bot t" by (rule findPendingMessage_Bot)
  from e show "telegram_Message c t =
             (None, t'\<lparr>Bot := Bot t @ map (\<lambda>response. (user pendingMessage, response)) (Responses c)\<rparr>)"
  proof
    assume "Capsule.Error c = None"
    with f b show ?thesis by (simp add: telegram_Message_def sendTextMessage_def foldl_Bot_Send)
  next
    assume "Capsule.Error c = Some err \<and> ErrorText err = []"
    with f b show ?thesis by (simp add: telegram_Message_def sendTextMessage_def foldl_Bot_Send)
  qed
qed

theorem telegram_Message_error_or_responses_witness:
  "telegram_Message
     \<lparr>Capsule.OriginalMessage = 1, FrontendProvider = ''telegram'', Capsule.Content = ''hello'',
      Capsule.User = ''bob'', Responses = [''unsent''],
      Capsule.Error = Some (Err Plain ''connection refused'')\<rparr>
     \<lparr>Bot = [], Telegram.AuthorizedUsers = [],
      pendingMessages = [\<lparr>uuid = 1, contentType = provider_Text, content = ''hello'',
                           user = \<lparr>tb_User.ID = 42, Username = ''bob''\<rparr>\<rparr>],
      userInput = [], Telegram.stopped = False\<rparr>
   = (None,
      \<lparr>Bot = [(\<lparr>tb_User.ID = 42, Username = ''bob''\<rparr>, ''[SYSTEM]Error: connection refused'')],
       Telegram.AuthorizedUsers = [], pendingMessages = [], userInput = [],
       Telegram.stopped = False\<rparr>)
   \<and> telegram_Message
     \<lparr>Capsule.OriginalMessage = 1, FrontendProvider = ''telegram'', Capsule.Content = ''hello'',
      Capsule.User = ''bob'', Responses = [''hi bob'', ''how are you?''], Capsule.Error = None\<rparr>
     \<lparr>Bot = [], Telegram.AuthorizedUsers = [],
      pendingMessages = [\<lparr>uuid = 1, contentType = provider_Text, content = ''hello'',
                           user = \<lparr>tb_User.ID = 42, Username = ''bob''\<rparr>\<rparr>],
      userInput = [], Telegram.stopped = False\<rparr>
   = (None,
      \<lparr>Bot = [(\<lparr>tb_User.ID = 42, Username = ''bob''\<rparr>, ''hi bob''),
              (\<lparr>tb_User.ID = 42, Username = ''bob''\<rparr>, ''how are you?'')],
       Telegram.AuthorizedUsers = [], pendingMessages = [], userInput = [],
       Telegram.stopped = False\<rparr>)"
proof -
  have f: "findPendingMessage
     \<lparr>Bot = [], Telegram.AuthorizedUsers = [],
      pendingMessages = [\<lparr>uuid = 1, contentType = provider_Text, content = ''hello'',
                           user = \<lparr>tb_User.ID = 42, Username = ''bob''\<rparr>\<rparr>],
      userInput = [], Telegram.stopped = False\<rparr> 1
    = (Inr \<lparr>uuid = 1, contentType = provider_Text, content = ''hello'',
            user = \<lparr>tb_User.ID = 42, Username = ''bob''\<rparr>\<rparr>,
       \<lparr>Bot = [], Telegram.AuthorizedUsers = [], pendingMessages = [], userInput = [],
        Telegram.stopped = False\<rparr>)"
    by (simp add: findPendingMessage_def)
  show ?thesis
    using f
      telegram_Message_error_or_responses
        [of "\<lparr>Bot = [], Telegram.AuthorizedUsers = [],
              pendingMessages = [\<lparr>uuid = 1, contentType = provider_Text, content = ''hello'',
                                   user = \<lparr>tb_User.ID = 42, Username = ''bob''\<rparr>\<rparr>],
              userInput = [], Telegram.stopped = False\<rparr>"
            "\<lparr>Capsule.OriginalMessage = 1, FrontendProvider = ''telegram'', Capsule.Content = ''hello'',
              Capsule.User = ''bob'', Responses = [''unsent''],
              Capsule.Error = Some (Err Plain ''connection refused'')\<rparr>"
            "Err Plain ''''"
            "\<lparr>Bot = [], Telegram.AuthorizedUsers = [], pendingMessages = [], userInput = [],
              Telegram.stopped = False\<rparr>"
            "\<lparr>uuid = 1, contentType = provider_Text, content = ''hello'',
              user = \<lparr>tb_User.ID = 42, Username = ''bob''\<rparr>\<rparr>"
            "Err Plain ''connection refused''"]
      telegram_Message_error_or_responses
        [of "\<lparr>Bot = [], Telegram.AuthorizedUsers = [],
              pendingMessages = [\<lparr>uuid = 1, contentType = provider_Text, content = ''hello'',
                                   user = \<lparr>tb_User.ID = 42, Username = ''bob''\<rparr>\<rparr>],
              userInput = [], Telegram.stopped = False\<rparr>"
            "\<lparr>Capsule.OriginalMessage = 1, FrontendProvider = ''telegram'', Capsule.Content = ''hello'',
              Capsule.User = ''bob'', Responses = [''hi bob'', ''how are you?''], Capsule.Error = None\<rparr>"
            "Err Plain ''''"
            "\<lparr>Bot = [], Telegram.AuthorizedUsers = [], pendingMessages = [], userInput = [],
              Telegram.stopped = False\<rparr>"
            "\<lparr>uuid = 1, contentType = provider_Text, content = ''hello'',
              user = \<lparr>tb_User.ID = 42, Username = ''bob''\<rparr>\<rparr>"
            "Err Plain ''''"]
    by simp
qed

text \<open>
  The claim as stated fails when no message is pending: a capsule with an error is
  answered with no message at all, and the lookup's error is returned.
\<close>

theorem telegram_Message_error_counterexample:
  "telegram_Message
     \<lparr>Capsule.OriginalMessage = 1, FrontendProvider = ''telegram'', Capsule.Content = ''hello'',
      Capsule.User = ''bob'', Responses = [], Capsule.Error = Some (Err Plain ''connection refused'')\<rparr>
     \<lparr>Bot = [], Telegram.AuthorizedUsers = [], pendingMessages = [], userInput = [],
      Telegram.stopped = False\<rparr>
   = (Some (Err NotProvisioned ''pending messages not provisioned''),
      \<lparr>Bot = [], Telegram.AuthorizedUsers = [], pendingMessages = [], userInput = [],
       Telegram.stopped = False\<rparr>)"
  by (simp add: telegram_Message_def sendErrorMessage_def findPendingMessage_def NotProvisionedf_def)

subsection \<open>The front-end manager: dispatch and initialization\<close>





text \<open>
  Closing the channels is another matter: every telegram provider closes the one
  \<^verbatim>\<open>userInput\<close> channel in its \<^verbatim>\<open>Stop()\<close>, so stopping panics at the second of two
  telegram providers, and at the first when the channel was found closed.
\<close>

lemma stopProviders_range_telegram_twice:
  "frontend_Provider.Stop p = telegram_Stop \<Longrightarrow> frontend_Provider.Stop q = telegram_Stop \<Longrightarrow>
   stopProviders_range closed (p # q # ps) = Panics"
  by (simp add: telegram_Stop_def)

lemma stopProviders_range_telegram_closed:
  "frontend_Provider.Stop p = telegram_Stop \<Longrightarrow> stopProviders_range True (p # ps) = Panics"
  by (simp add: telegram_Stop_def)

lemma stopProviders_one_telegram:
  "Frontend.activatedProviders f = [p] \<Longrightarrow> frontend_Provider.Stop p = telegram_Stop \<Longrightarrow>
   stopProviders False f =
     Returns (f\<lparr>Frontend.activatedProviders := [p\<lparr>state := (state p)\<lparr>Telegram.stopped := True\<rparr>\<rparr>],
               Frontend.stopped := True\<rparr>)"
  by (simp add: stopProviders_def telegram_Stop_def)




lemma loadProvider_range_append:
  "loadProvider_range collection (pre @ post) providers =
     (case loadProvider_range collection pre providers of
        Inl e \<Rightarrow> Inl e
      | Inr ps \<Rightarrow> loadProvider_range collection post ps)"
  by (induction pre arbitrary: providers) (auto split: option.splits sum.splits)

lemma loadProvider_range_Inl:
  "loadProvider_range collection pcs providers = Inl e \<Longrightarrow>
   \<exists>pre pc post. pcs = pre @ pc # post
     \<and> (\<exists>ps. loadProvider_range collection pre providers = Inr ps)
     \<and> (collection (ProviderConfig.Label pc) = None
            \<and> e = NotFoundf (''provider called `'' @ ProviderConfig.Label pc @ ''`'')
          \<or> (\<exists>Initialize err. collection (ProviderConfig.Label pc) = Some Initialize
                \<and> IsActivated pc
                \<and> Initialize \<lparr>Config.Token = ProviderConfig.Token pc,
                               Config.AuthorizedUsers = ProviderConfig.AuthorizedUsers pc\<rparr> = Inl err
                \<and> e = Annotate err (''loading provider '' @ ProviderConfig.Label pc)))"
proof (induction pcs arbitrary: providers)
  case Nil
  then show ?case by simp
next
  case (Cons pc rest)
  show ?case
  proof (cases "collection (ProviderConfig.Label pc)")
    case None
    with Cons.prems have "e = NotFoundf (''provider called `'' @ ProviderConfig.Label pc @ ''`'')"
      by simp
    with None show ?thesis by (intro exI [of _ "[]"] exI [of _ pc] exI [of _ rest]) simp
  next
    case (Some Initialize)
    show ?thesis
    proof (cases "IsActivated pc")
      case False
      with Some Cons.prems have "loadProvider_range collection rest providers = Inl e" by simp
      from Cons.IH [OF this] obtain pre pc' post ps where
        "rest = pre @ pc' # post" "loadProvider_range collection pre providers = Inr ps"
        and f: "collection (ProviderConfig.Label pc') = None
            \<and> e = NotFoundf (''provider called `'' @ ProviderConfig.Label pc' @ ''`'')
          \<or> (\<exists>Initialize err. collection (ProviderConfig.Label pc') = Some Initialize
                \<and> IsActivated pc'
                \<and> Initialize \<lparr>Config.Token = ProviderConfig.Token pc',
                               Config.AuthorizedUsers = ProviderConfig.AuthorizedUsers pc'\<rparr> = Inl err
                \<and> e = Annotate err (''loading provider '' @ ProviderConfig.Label pc'))"
        by blast
      then have "pc # rest = (pc # pre) @ pc' # post"
        "loadProvider_range collection (pc # pre) providers = Inr ps"
        using Some False by simp_all
      with f show ?thesis by blast
    next
      case True
      show ?thesis
      proof (cases "Initialize \<lparr>Config.Token = ProviderConfig.Token pc,
                               Config.AuthorizedUsers = ProviderConfig.AuthorizedUsers pc\<rparr>")
        case (Inl err)
        with Some True Cons.prems
        have "e = Annotate err (''loading provider '' @ ProviderConfig.Label pc)" by simp
        with Some True Inl show ?thesis
          by (intro exI [of _ "[]"] exI [of _ pc] exI [of _ rest]) simp
      next
        case (Inr p)
        with Some True Cons.prems
        have "loadProvider_range collection rest (providers @ [p]) = Inl e" by simp
        from Cons.IH [OF this] obtain pre pc' post ps where
          "rest = pre @ pc' # post" "loadProvider_range collection pre (providers @ [p]) = Inr ps"
          and f: "collection (ProviderConfig.Label pc') = None
              \<and> e = NotFoundf (''provider called `'' @ ProviderConfig.Label pc' @ ''`'')
            \<or> (\<exists>Initialize err. collection (ProviderConfig.Label pc') = Some Initialize
                  \<and> IsActivated pc'
                  \<and> Initialize \<lparr>Config.Token = ProviderConfig.Token pc',
                                 Config.AuthorizedUsers = ProviderConfig.AuthorizedUsers pc'\<rparr> = Inl err
                  \<and> e = Annotate err (''loading provider '' @ ProviderConfig.Label pc'))"
          by blast
        then have "pc # rest = (pc # pre) @ pc' # post"
          "loadProvider_range collection (pc # pre) providers = Inr ps"
          using Some True Inr by simp_all
        with f show ?thesis by blast
      qed
    qed
  qed
qed

lemma loadProvider_range_Inr:
  "loadProvider_range collection pcs providers = Inr ps \<longleftrightarrow>
     (\<exists>new. ps = providers @ new
        \<and> (\<forall>pc\<in>set pcs. collection (ProviderConfig.Label pc) \<noteq> None)
        \<and> list_all2 (\<lambda>pc p. \<exists>Initialize. collection (ProviderConfig.Label pc) = Some Initialize
                       \<and> Initialize \<lparr>Config.Token = ProviderConfig.Token pc,
                                      Config.AuthorizedUsers = ProviderConfig.AuthorizedUsers pc\<rparr> = Inr p)
             (filter IsActivated pcs) new)"
proof (induction pcs arbitrary: providers)
  case Nil
  then show ?case by auto
next
  case (Cons pc rest)
  show ?case
  proof (cases "collection (ProviderConfig.Label pc)")
    case None
    then show ?thesis by simp
  next
    case (Some Initialize)
    show ?thesis
    proof (cases "IsActivated pc")
      case False
      with Some Cons.IH [of providers] show ?thesis by simp
    next
      case True
      show ?thesis
      proof (cases "Initialize \<lparr>Config.Token = ProviderConfig.Token pc,
                               Config.AuthorizedUsers = ProviderConfig.AuthorizedUsers pc\<rparr>")
        case (Inl err)
        with Some True show ?thesis by (auto simp: list_all2_Cons1)
      next
        case (Inr p)
        with Some True Cons.IH [of "providers @ [p]"] show ?thesis
          by (auto simp: list_all2_Cons1)
      qed
    qed
  qed
qed

text \<open>
  C8. Front-end initialization over a configuration list. \<^verbatim>\<open>loadProvider\<close> fails with
  \<open>e\<close> exactly when the list has a first entry that fails, every entry before it having
  loaded, and \<open>e\<close> is that entry's error: "provider called ... not found" when its label
  is not in the registry, or the provider's own initialization error annotated with
  "loading provider ..." when the entry is activated and its construction fails. It
  succeeds with \<open>ps\<close> exactly when every configured label is in the registry and \<open>ps\<close> are
  the providers constructed for the activated entries, in order. \<^verbatim>\<open>New\<close> returns the
  error (annotated) in the first case and the manager holding all of \<open>ps\<close> in the second:
  never a manager with part of them.
\<close>

theorem frontend_initialize_all_or_first_error:
  "(frontend_loadProvider collection pcs = Inl e \<longleftrightarrow>
      (\<exists>pre pc post. pcs = pre @ pc # post
         \<and> (\<exists>loaded. frontend_loadProvider collection pre = Inr loaded)
         \<and> (collection (ProviderConfig.Label pc) = None
               \<and> e = NotFoundf (''provider called `'' @ ProviderConfig.Label pc @ ''`'')
             \<or> (\<exists>Initialize err. collection (ProviderConfig.Label pc) = Some Initialize
                   \<and> IsActivated pc
                   \<and> Initialize \<lparr>Config.Token = ProviderConfig.Token pc,
                                  Config.AuthorizedUsers = ProviderConfig.AuthorizedUsers pc\<rparr> = Inl err
                   \<and> e = Annotate err (''loading provider '' @ ProviderConfig.Label pc)))))
   \<and> (frontend_loadProvider collection pcs = Inr ps \<longleftrightarrow>
        (\<forall>pc\<in>set pcs. collection (ProviderConfig.Label pc) \<noteq> None)
        \<and> list_all2 (\<lambda>pc p. \<exists>Initialize. collection (ProviderConfig.Label pc) = Some Initialize
                       \<and> Initialize \<lparr>Config.Token = ProviderConfig.Token pc,
                                      Config.AuthorizedUsers = ProviderConfig.AuthorizedUsers pc\<rparr> = Inr p)
             (filter IsActivated pcs) ps)
   \<and> (frontend_loadProvider collection pcs = Inl e \<longrightarrow>
        frontend_New collection (Inr pcs) = Inl (Annotate e ''initiliazing frontend''))
   \<and> (frontend_loadProvider collection pcs = Inr ps \<longrightarrow>
        frontend_New collection (Inr pcs) =
          Inr \<lparr>Frontend.activatedProviders = ps, Frontend.capsuleChan = [], Frontend.logged = [],
               Frontend.stopped = False\<rparr>)"
proof (intro conjI)
  show "frontend_loadProvider collection pcs = Inl e \<longleftrightarrow>
      (\<exists>pre pc post. pcs = pre @ pc # post
         \<and> (\<exists>loaded. frontend_loadProvider collection pre = Inr loaded)
         \<and> (collection (ProviderConfig.Label pc) = None
               \<and> e = NotFoundf (''provider called `'' @ ProviderConfig.Label pc @ ''`'')
             \<or> (\<exists>Initialize err. collection (ProviderConfig.Label pc) = Some Initialize
                   \<and> IsActivated pc
                   \<and> Initialize \<lparr>Config.Token = ProviderConfig.Token pc,
                                  Config.AuthorizedUsers = ProviderConfig.AuthorizedUsers pc\<rparr> = Inl err
                   \<and> e = Annotate err (''loading provider '' @ ProviderConfig.Label pc))))"
    (is "?L \<longleftrightarrow> ?R")
  proof
    assume ?L
    then show ?R
      unfolding frontend_loadProvider_def by (rule loadProvider_range_Inl)
  next
    assume ?R
    then obtain pre pc post loaded where
      pcs: "pcs = pre @ pc # post"
      and pre: "loadProvider_range collection pre [] = Inr loaded"
      and f: "collection (ProviderConfig.Label pc) = None
               \<and> e = NotFoundf (''provider called `'' @ ProviderConfig.Label pc @ ''`'')
             \<or> (\<exists>Initialize err. collection (ProviderConfig.Label pc) = Some Initialize
                   \<and> IsActivated pc
                   \<and> Initialize \<lparr>Config.Token = ProviderConfig.Token pc,
                                  Config.AuthorizedUsers = ProviderConfig.AuthorizedUsers pc\<rparr> = Inl err
                   \<and> e = Annotate err (''loading provider '' @ ProviderConfig.Label pc))"
      unfolding frontend_loadProvider_def by blast
    from f have "loadProvider_range collection (pc # post) loaded = Inl e" by auto
    with pre show ?L
      unfolding frontend_loadProvider_def pcs by (simp add: loadProvider_range_append)
  qed
next
  show "frontend_loadProvider collection pcs = Inr ps \<longleftrightarrow>
        (\<forall>pc\<in>set pcs. collection (ProviderConfig.Label pc) \<noteq> None)
        \<and> list_all2 (\<lambda>pc p. \<exists>Initialize. collection (ProviderConfig.Label pc) = Some Initialize
                       \<and> Initialize \<lparr>Config.Token = ProviderConfig.Token pc,
                                      Config.AuthorizedUsers = ProviderConfig.AuthorizedUsers pc\<rparr> = Inr p)
             (filter IsActivated pcs) ps"
    unfolding frontend_loadProvider_def by (simp add: loadProvider_range_Inr)
next
  show "frontend_loadProvider collection pcs = Inl e \<longrightarrow>
        frontend_New collection (Inr pcs) = Inl (Annotate e ''initiliazing frontend'')"
    by (simp add: frontend_New_def)
next
  show "frontend_loadProvider collection pcs = Inr ps \<longrightarrow>
        frontend_New collection (Inr pcs) =
          Inr \<lparr>Frontend.activatedProviders = ps, Frontend.capsuleChan = [], Frontend.logged = [],
               Frontend.stopped = False\<rparr>"
    by (simp add: frontend_New_def)
qed

theorem frontend_initialize_all_or_first_error_witness:
  "frontend_New
     (providerCollection (\<lambda>token. if token = ''good'' then None else Some (Err Plain ''unauthorized'')))
     (Inr [\<lparr>ProviderConfig.Label = ''telegram'', IsActivated = True, ProviderConfig.Token = ''bad'',
             ProviderConfig.AuthorizedUsers = []\<rparr>,
           \<lparr>ProviderConfig.Label = ''messenger'', IsActivated = False, ProviderConfig.Token = '''',
             ProviderConfig.AuthorizedUsers = []\<rparr>])
   = Inl (Annotate (Annotate (Annotate (Err Plain ''unauthorized'') ''initializing telegram'')
                      ''loading provider telegram'') ''initiliazing frontend'')
   \<and> frontend_New
     (providerCollection (\<lambda>token. if token = ''good'' then None else Some (Err Plain ''unauthorized'')))
     (Inr [\<lparr>ProviderConfig.Label = ''telegram'', IsActivated = False, ProviderConfig.Token = ''bad'',
             ProviderConfig.AuthorizedUsers = []\<rparr>,
           \<lparr>ProviderConfig.Label = ''messenger'', IsActivated = False, ProviderConfig.Token = '''',
             ProviderConfig.AuthorizedUsers = []\<rparr>])
   = Inl (Annotate (NotFoundf ''provider called `messenger`'') ''initiliazing frontend'')"
proof -
  let ?coll = "providerCollection (\<lambda>token. if token = ''good'' then None else Some (Err Plain ''unauthorized''))"
  let ?bad = "\<lparr>ProviderConfig.Label = ''telegram'', IsActivated = True, ProviderConfig.Token = ''bad'',
             ProviderConfig.AuthorizedUsers = []\<rparr>"
  let ?off = "\<lparr>ProviderConfig.Label = ''telegram'', IsActivated = False, ProviderConfig.Token = ''bad'',
             ProviderConfig.AuthorizedUsers = []\<rparr>"
  let ?unknown = "\<lparr>ProviderConfig.Label = ''messenger'', IsActivated = False, ProviderConfig.Token = '''',
             ProviderConfig.AuthorizedUsers = []\<rparr>"
  have a: "frontend_loadProvider ?coll [?bad, ?unknown]
             = Inl (Annotate (Annotate (Err Plain ''unauthorized'') ''initializing telegram'')
                      ''loading provider telegram'')"
    by (simp add: frontend_loadProvider_def providerCollection_def telegram_Initialize_def)
  have b: "frontend_loadProvider ?coll [?off, ?unknown] = Inl (NotFoundf ''provider called `messenger`'')"
    by (simp add: frontend_loadProvider_def providerCollection_def telegram_Initialize_def)
  from a frontend_initialize_all_or_first_error [of ?coll "[?bad, ?unknown]"
      "Annotate (Annotate (Err Plain ''unauthorized'') ''initializing telegram'') ''loading provider telegram''" "[]"]
  have "frontend_New ?coll (Inr [?bad, ?unknown])
          = Inl (Annotate (Annotate (Annotate (Err Plain ''unauthorized'') ''initializing telegram'')
                      ''loading provider telegram'') ''initiliazing frontend'')"
    by blast
  moreover from b frontend_initialize_all_or_first_error [of ?coll "[?off, ?unknown]"
      "NotFoundf ''provider called `messenger`''" "[]"]
  have "frontend_New ?coll (Inr [?off, ?unknown])
          = Inl (Annotate (NotFoundf ''provider called `messenger`'') ''initiliazing frontend'')"
    by blast
  ultimately show ?thesis by (rule conjI)
qed

text \<open>The back-end manager resolves its one configured label the same way.\<close>

lemma backend_loadProvider_cases:
  "backend_loadProvider collection providerConfig =
     (case collection (backend_Config.Label providerConfig) of
        None \<Rightarrow> Inl (NotFoundf (''provider called `'' @ backend_Config.Label providerConfig @ ''`''))
      | Some Initialize \<Rightarrow>
          (case Initialize providerConfig of
             Inl err \<Rightarrow> Inl (Annotate err (''loading provider '' @ backend_Config.Label providerConfig))
           | Inr p \<Rightarrow> Inr p))"
  by (simp add: backend_loadProvider_def)

subsection \<open>The telegram binding: unauthorized senders\<close>

lemma userIsValid_iff:
  "userIsValid users sender \<longleftrightarrow>
     (\<exists>authorized\<in>set users. User.Name authorized = Username sender
                                \<and> User.ID authorized = tb_User.ID sender)"
  by (induction users) auto

text \<open>
  C9. A text message whose sender matches no authorized user on both the ID and the name
  leaves the binding as it was: nothing is sent to the front-end manager on
  \<open>userInput\<close>, no pending message is recorded, and nothing is sent to the sender.
\<close>

theorem textMessageHandler_unauthorized:
  assumes "\<not> (\<exists>authorized\<in>set (Telegram.AuthorizedUsers t).
                 User.ID authorized = tb_User.ID (Sender message)
                 \<and> User.Name authorized = Username (Sender message))"
  shows "textMessageHandler NewRandom t message = t"
proof -
  from assms have "\<not> userIsValid (Telegram.AuthorizedUsers t) (Sender message)"
    by (auto simp: userIsValid_iff)
  then show ?thesis by (simp add: textMessageHandler_def)
qed

theorem textMessageHandler_unauthorized_witness:
  "textMessageHandler (Inr 7)
     \<lparr>Bot = [], Telegram.AuthorizedUsers = [\<lparr>User.ID = 42, Name = ''bob''\<rparr>],
      pendingMessages = [], userInput = [], Telegram.stopped = False\<rparr>
     \<lparr>Sender = \<lparr>tb_User.ID = 43, Username = ''bob''\<rparr>, tb_Message.Text = ''hello''\<rparr>
   = \<lparr>Bot = [], Telegram.AuthorizedUsers = [\<lparr>User.ID = 42, Name = ''bob''\<rparr>],
      pendingMessages = [], userInput = [], Telegram.stopped = False\<rparr>"
  using textMessageHandler_unauthorized
    [of "\<lparr>Bot = [], Telegram.AuthorizedUsers = [\<lparr>User.ID = 42, Name = ''bob''\<rparr>],
          pendingMessages = [], userInput = [], Telegram.stopped = False\<rparr>"
        "\<lparr>Sender = \<lparr>tb_User.ID = 43, Username = ''bob''\<rparr>, tb_Message.Text = ''hello''\<rparr>"
        "Inr 7"]
  by simp

text \<open>An authorized sender's message is recorded as pending and forwarded.\<close>

lemma textMessageHandler_authorized:
  assumes "\<exists>authorized\<in>set (Telegram.AuthorizedUsers t).
             User.ID authorized = tb_User.ID (Sender message)
             \<and> User.Name authorized = Username (Sender message)"
  shows "textMessageHandler (Inr u) t message =
           t\<lparr>pendingMessages := pendingMessages t @
                 [\<lparr>uuid = u, contentType = provider_Text, content = tb_Message.Text message,
                   user = Sender message\<rparr>],
             userInput := userInput t @
                 [\<lparr>CapsuleProvider.OriginalMessage = u, CapsuleProvider.ProviderLabel = ''telegram'',
                   CapsuleProvider.Content = tb_Message.Text message,
                   CapsuleProvider.User = Username (Sender message)\<rparr>]\<rparr>"
proof -
  from assms have "userIsValid (Telegram.AuthorizedUsers t) (Sender message)"
    by (auto simp: userIsValid_iff)
  then show ?thesis
    by (simp add: textMessageHandler_def processUserMessage_def Let_def
          messageToCapsuleProvider_def label_def)
qed

subsection \<open>The watson binding: multi-line responses\<close>

lemma Split_not_Nil: "Split s sep \<noteq> []"
  by (induction s) (auto split: list.splits)

lemma length_Split: "length (Split s sep) = Suc (count_list s sep)"
  by (induction s) (auto split: list.splits simp: Split_not_Nil)

lemma Split_no_sep: "piece \<in> set (Split s sep) \<Longrightarrow> sep \<notin> set piece"
  by (induction s arbitrary: piece) (auto split: list.splits if_splits)

lemma Join_Split: "Join (Split s sep) sep = s"
proof (induction s)
  case Nil
  then show ?case by simp
next
  case (Cons c cs)
  obtain piece pieces where sp: "Split cs sep = piece # pieces"
    using Split_not_Nil [of cs sep] by (cases "Split cs sep") auto
  with Cons show ?case by (cases pieces) auto
qed

lemma foldl_outputs:
  "foldl (\<lambda>outputs response. outputs @ [\<lparr>Output.ResponseType = rt, Output.Text = response\<rparr>])
      outputs pieces
     = outputs @ map (\<lambda>response. \<lparr>Output.ResponseType = rt, Output.Text = response\<rparr>) pieces"
  by (induction pieces arbitrary: outputs) simp_all

lemma generics_range_Some:
  "generics_range (map Some generics) outputs =
     Returns (outputs @ concat (map (\<lambda>generic.
        map (\<lambda>response. \<lparr>Output.ResponseType = Generic.ResponseType generic, Output.Text = response\<rparr>)
          (Split (Generic.Text generic) newline)) generics))"
  by (induction generics arbitrary: outputs) (simp_all add: foldl_outputs)

lemma intents_range_Some:
  "intents_range (map Some intents) converted =
     Returns (converted @ map (\<lambda>intent. \<lparr>Intent.Intent = watson_Intent.Intent intent,
                                          Intent.Confidence = watson_Intent.Confidence intent\<rparr>) intents)"
  by (induction intents arbitrary: converted) simp_all

lemma convertResponse_nil_Result:
  "json_Unmarshal response = Inr wResponse \<Longrightarrow> Result wResponse = None \<Longrightarrow>
   convertResponse json_Unmarshal response = Panics"
  by (simp add: convertResponse_def)

text \<open>
  C10. For a well-formed watson response (the decoder succeeds, the result and its output
  are present, and no generic item or intent is a nil pointer), \<^verbatim>\<open>convertResponse\<close>
  returns the response whose outputs are the concatenation, over the generic items in
  order, of the item's text split on newlines, each piece with the item's response type.
  A text with k newlines gives k + 1 pieces, none of which holds a newline.
\<close>

theorem convertResponse_outputs:
  assumes "json_Unmarshal response = Inr wResponse"
      and "Result wResponse = Some result"
      and "Output result = Some output"
      and "Generics output = map Some generics"
      and "OutputWatson.Intents output = map Some intents"
  shows "convertResponse json_Unmarshal response =
           Returns (Inr \<lparr>Response.StatusCode = ResponseWatson.StatusCode wResponse,
              Outputs = concat (map (\<lambda>generic.
                  map (\<lambda>piece. \<lparr>Output.ResponseType = Generic.ResponseType generic,
                                 Output.Text = piece\<rparr>)
                    (Split (Generic.Text generic) newline)) generics),
              Response.Intents = map (\<lambda>intent. \<lparr>Intent.Intent = watson_Intent.Intent intent,
                                          Intent.Confidence = watson_Intent.Confidence intent\<rparr>) intents\<rparr>)
         \<and> (\<forall>generic\<in>set generics.
               length (Split (Generic.Text generic) newline)
                 = Suc (count_list (Generic.Text generic) newline)
               \<and> (\<forall>piece\<in>set (Split (Generic.Text generic) newline). newline \<notin> set piece))"
  using assms
  by (simp add: convertResponse_def generics_range_Some intents_range_Some length_Split Split_no_sep)

theorem convertResponse_outputs_witness:
  "convertResponse
     (\<lambda>response. Inr \<lparr>ResponseWatson.StatusCode = 200,
        Result = Some \<lparr>Output = Some \<lparr>Generics = [Some \<lparr>Generic.ResponseType = ''text'',
                                                          Generic.Text = [CHR ''a'', CHR 0x0A, CHR ''b'']\<rparr>,
                                                    Some \<lparr>Generic.ResponseType = ''text'',
                                                          Generic.Text = ''c''\<rparr>],
                                        OutputWatson.Intents = []\<rparr>\<rparr>\<rparr>) ''{}''
   = Returns (Inr \<lparr>Response.StatusCode = 200,
        Outputs = [\<lparr>Output.ResponseType = ''text'', Output.Text = ''a''\<rparr>,
                   \<lparr>Output.ResponseType = ''text'', Output.Text = ''b''\<rparr>,
                   \<lparr>Output.ResponseType = ''text'', Output.Text = ''c''\<rparr>],
        Response.Intents = []\<rparr>)"
  using convertResponse_outputs
    [of "\<lambda>response. Inr \<lparr>ResponseWatson.StatusCode = 200,
        Result = Some \<lparr>Output = Some \<lparr>Generics = [Some \<lparr>Generic.ResponseType = ''text'',
                                                          Generic.Text = [CHR ''a'', CHR 0x0A, CHR ''b'']\<rparr>,
                                                    Some \<lparr>Generic.ResponseType = ''text'',
                                                          Generic.Text = ''c''\<rparr>],
                                        OutputWatson.Intents = []\<rparr>\<rparr>\<rparr>" "''{}''"
        "\<lparr>ResponseWatson.StatusCode = 200,
        Result = Some \<lparr>Output = Some \<lparr>Generics = [Some \<lparr>Generic.ResponseType = ''text'',
                                                          Generic.Text = [CHR ''a'', CHR 0x0A, CHR ''b'']\<rparr>,
                                                    Some \<lparr>Generic.ResponseType = ''text'',
                                                          Generic.Text = ''c''\<rparr>],
                                        OutputWatson.Intents = []\<rparr>\<rparr>\<rparr>"
        "\<lparr>Output = Some \<lparr>Generics = [Some \<lparr>Generic.ResponseType = ''text'',
                                                          Generic.Text = [CHR ''a'', CHR 0x0A, CHR ''b'']\<rparr>,
                                                    Some \<lparr>Generic.ResponseType = ''text'',
                                                          Generic.Text = ''c''\<rparr>],
                                        OutputWatson.Intents = []\<rparr>\<rparr>"
        "\<lparr>Generics = [Some \<lparr>Generic.ResponseType = ''text'',
                                                          Generic.Text = [CHR ''a'', CHR 0x0A, CHR ''b'']\<rparr>,
                                                    Some \<lparr>Generic.ResponseType = ''text'',
                                                          Generic.Text = ''c''\<rparr>],
                                        OutputWatson.Intents = []\<rparr>"
        "[\<lparr>Generic.ResponseType = ''text'', Generic.Text = [CHR ''a'', CHR 0x0A, CHR ''b'']\<rparr>,
          \<lparr>Generic.ResponseType = ''text'', Generic.Text = ''c''\<rparr>]"
        "[]"]
  by (simp add: newline_def)

subsection \<open>The first revision's listening loop and content types\<close>

lemma backend_message_not_Text:
  "CapsuleIn.ContentType capsule = provider_Image \<or> CapsuleIn.ContentType capsule = provider_Audio \<Longrightarrow>
   backend_message b capsule =
     (Inl (NotImplementedf (CapsuleIn.ContentType capsule @ '' message handling'')), b)"
  by (auto simp: backend_message_def provider_Image_def provider_Audio_def provider_Text_def)

lemma Start_v1_receive_calls_provider:
  "unmarshalCapsule y data = Inr capsule \<Longrightarrow>
   Backend_v1.provider_calls (Start_v1_receive y b data)
     = Backend_v1.provider_calls b @ [CapsuleIn.Content capsule]"
  by (auto simp: Start_v1_receive_def Let_def errorHandler_v1_def split: sum.splits option.splits prod.splits)

text \<open>
  In the second revision the capsule has no content type: the telegram binding keeps
  what is not text to itself.
\<close>

lemma processUserMessage_not_Text:
  "ctype = provider_Audio \<or> ctype = provider_Image \<Longrightarrow>
   processUserMessage (Inr u) t userMessage ctype =
     (Some (NotImplementedf (ctype @ '' message handling'')), t)"
  by (auto simp: processUserMessage_def provider_Audio_def provider_Image_def provider_Text_def)

text \<open>
  C1. The claim is that a capsule whose content type is not text never reaches the
  provider's \<^verbatim>\<open>Message\<close>. \<^verbatim>\<open>Backend.message\<close> does that (Image and Audio end in a
  "not implemented" error without a call), but the listening loop does not go through it:
  it calls \<^verbatim>\<open>b.activatedProvider.Message\<close> itself on every valid capsule. Here the loop
  receives a capsule of content type Image and the provider is called with its content,
  while \<^verbatim>\<open>Backend.message\<close> on the same capsule returns the error and calls nothing.
\<close>

theorem Start_v1_image_reaches_provider:
  "Backend_v1.provider_calls
     (Start_v1_receive
        \<lparr>Unmarshal = (\<lambda>data. Inr \<lparr>CapsuleIn.RespondTo = 1, CapsuleIn.ProviderLabel = ''telegram'',
                                    CapsuleIn.ContentType = provider_Image,
                                    CapsuleIn.Content = ''PNG'', CapsuleIn.User = ''bob''\<rparr>),
         Marshal = (\<lambda>capsuleOut. Inr ''yaml'')\<rparr>
        \<lparr>Backend_v1.activatedProvider =
           \<lparr>backend_Provider.Message =
              (\<lambda>text. Inr \<lparr>Response.StatusCode = 200, Outputs = [], Response.Intents = []\<rparr>),
            backend_Provider.GetLabel = ''watson''\<rparr>,
         Backend_v1.provider_calls = [], backendErrorChan = [], Backend_v1.logged = [],
         Backend_v1.stopped = False\<rparr>
        ''data'')
   = [''PNG'']
   \<and> backend_message
       \<lparr>Backend_v1.activatedProvider =
           \<lparr>backend_Provider.Message =
              (\<lambda>text. Inr \<lparr>Response.StatusCode = 200, Outputs = [], Response.Intents = []\<rparr>),
            backend_Provider.GetLabel = ''watson''\<rparr>,
         Backend_v1.provider_calls = [], backendErrorChan = [], Backend_v1.logged = [],
         Backend_v1.stopped = False\<rparr>
       \<lparr>CapsuleIn.RespondTo = 1, CapsuleIn.ProviderLabel = ''telegram'',
        CapsuleIn.ContentType = provider_Image,
        CapsuleIn.Content = ''PNG'', CapsuleIn.User = ''bob''\<rparr>
     = (Inl (Err NotImplemented ''Image message handling not implemented''),
        \<lparr>Backend_v1.activatedProvider =
           \<lparr>backend_Provider.Message =
              (\<lambda>text. Inr \<lparr>Response.StatusCode = 200, Outputs = [], Response.Intents = []\<rparr>),
            backend_Provider.GetLabel = ''watson''\<rparr>,
         Backend_v1.provider_calls = [], backendErrorChan = [], Backend_v1.logged = [],
         Backend_v1.stopped = False\<rparr>)"
proof -
  have v: "capsuleIsValid \<lparr>CapsuleIn.RespondTo = 1, CapsuleIn.ProviderLabel = ''telegram'',
                                    CapsuleIn.ContentType = provider_Image,
                                    CapsuleIn.Content = ''PNG'', CapsuleIn.User = ''bob''\<rparr> = None"
    by (simp add: capsuleIsValid_def Nil_UUID_def provider_Image_def)
  show ?thesis
    by (simp add: Start_v1_receive_def Let_def unmarshalCapsule_def v [unfolded provider_Image_def]
          backend_message_def
          provider_Image_def provider_Text_def NotImplementedf_def)
qed

end
